theory Spec2Isabelle
  imports Complex_Main "HOL-Library.Monad_Syntax"
begin

section \<open>Telemetry samples\<close>

text \<open>
  The track map of \<^verbatim>\<open>frontend/components/TrackMap.tsx\<close> receives an array of telemetry
  points. A JavaScript \<^verbatim>\<open>number\<close> is modelled as an exact real number: the inputs are
  finite, and the rounding and the overflow of the IEEE binary64 arithmetic are not part
  of the model, so a projected coordinate of the model is the code's up to rounding only.
  No statement below rests on that difference: none bounds a projected coordinate or
  equates two differently computed numbers. Array indices and the playback cursor are
  integers. Optional fields are options.
\<close>

record TelemetryPoint =
  x_coordinate :: real
  y_coordinate :: real
  speed :: real
  n_gear :: "int option"
  throttle :: "real option"
  brake :: "real option"

section \<open>Projection engine\<close>

text \<open>
  The normalisation parameters that \<^verbatim>\<open>buildNormParams\<close> derives from the whole array and
  that \<^verbatim>\<open>normPoint\<close> applies to one sample.
\<close>

record NormParams =
  minX :: real
  minY :: real
  scale :: real
  offsetX :: real
  offsetY :: real

text \<open>
  \<^verbatim>\<open>Math.min(...xs)\<close> and \<^verbatim>\<open>Math.max(...xs)\<close>. On an empty array JavaScript returns
  \<^verbatim>\<open>Infinity\<close> and \<^verbatim>\<open>-Infinity\<close>, which are not real numbers: the model returns \<open>None\<close>
  there.
\<close>

fun Math_min :: "real list \<Rightarrow> real option" where
  "Math_min [] = None"
| "Math_min (v # vs) = Some (fold min vs v)"

fun Math_max :: "real list \<Rightarrow> real option" where
  "Math_max [] = None"
| "Math_max (v # vs) = Some (fold max vs v)"

text \<open>
  \<^verbatim>\<open>a || b\<close> on numbers: the left operand unless it is zero, the only falsy finite
  number.
\<close>

definition orElse :: "real \<Rightarrow> real \<Rightarrow> real" where
  "orElse a b = (if a = 0 then b else a)"

text \<open>
  \<^verbatim>\<open>buildNormParams\<close>, line by line. The result is \<open>None\<close> exactly when the array is empty,
  where every field of the JavaScript result is non-finite.
\<close>

definition buildNormParams :: "TelemetryPoint list \<Rightarrow> real \<Rightarrow> real \<Rightarrow> NormParams option" where
  "buildNormParams telemetry viewBoxSize padding =
     do {
       let xs = map x_coordinate telemetry;
       let ys = map y_coordinate telemetry;
       minX \<leftarrow> Math_min xs;
       maxX \<leftarrow> Math_max xs;
       minY \<leftarrow> Math_min ys;
       maxY \<leftarrow> Math_max ys;
       let rangeX = orElse (maxX - minX) 1;
       let rangeY = orElse (maxY - minY) 1;
       let maxRange = max rangeX rangeY;
       let drawable = viewBoxSize - padding * 2;
       let scale = drawable / maxRange;
       let offsetX = padding + (drawable - rangeX * scale) / 2;
       let offsetY = padding + (drawable - rangeY * scale) / 2;
       Some \<lparr>minX = minX, minY = minY, scale = scale,
              offsetX = offsetX, offsetY = offsetY\<rparr>
     }"

text \<open>\<^verbatim>\<open>normPoint\<close> returns the object \<^verbatim>\<open>{x, y}\<close>, here the pair \<open>(x, y)\<close>.\<close>

definition normPoint :: "TelemetryPoint \<Rightarrow> NormParams \<Rightarrow> real \<times> real" where
  "normPoint p ps =
     ((x_coordinate p - minX ps) * scale ps + offsetX ps,
      (y_coordinate p - minY ps) * scale ps + offsetY ps)"

subsection \<open>Numbers as text\<close>

text \<open>
  The decimal digits of a natural number and of an integer, as a template literal prints
  an integral number.
\<close>

definition digitChar :: "nat \<Rightarrow> char" where
  "digitChar d = ''0123456789'' ! d"

function showNat :: "nat \<Rightarrow> string" where
  "showNat n = (if n < 10 then [digitChar n] else showNat (n div 10) @ [digitChar (n mod 10)])"
  by pat_completeness auto
termination
  by (relation "measure id") auto

declare showNat.simps [simp del]

definition showInt :: "int \<Rightarrow> string" where
  "showInt i = (if i < 0 then ''-'' @ showNat (nat (- i)) else showNat (nat i))"

text \<open>
  \<^verbatim>\<open>Number.prototype.toFixed\<close> as ECMAScript defines it: the sign is split off first; a
  magnitude from \<open>10 ^ 21\<close> on is printed in exponent notation, which is the engine's
  rendering of a double and is taken as the parameter \<open>expo\<close>; a smaller magnitude is
  printed as the integer \<open>n\<close> nearest to \<open>a * 10 ^ fractionDigits\<close> (the larger one on a
  tie), padded with zeros to at least \<open>fractionDigits + 1\<close> digits, with the point before
  the last \<open>fractionDigits\<close> digits.
\<close>

definition toFixed :: "(real \<Rightarrow> string) \<Rightarrow> nat \<Rightarrow> real \<Rightarrow> string" where
  "toFixed expo fractionDigits x =
     (let s = (if x < 0 then ''-'' else '''');
          a = (if x < 0 then - x else x);
          m = (if 10 ^ 21 \<le> a then expo a
               else let n = nat \<lfloor>a * 10 ^ fractionDigits + 1 / 2\<rfloor>;
                        m = showNat n
                    in if fractionDigits \<noteq> 0
                       then let k = length m;
                                m = (if k \<le> fractionDigits
                                     then replicate (fractionDigits + 1 - k) (CHR ''0'') @ m
                                     else m);
                                k = length m
                            in take (k - fractionDigits) m @ ''.'' @ drop (k - fractionDigits) m
                       else m)
      in s @ m)"

subsection \<open>The path string\<close>

text \<open>
  \<^verbatim>\<open>array.map((p, i) => ...)\<close> passes the index along; \<^verbatim>\<open>array.join(sep)\<close> puts the
  separator between the elements.
\<close>

fun mapIndexed :: "('a \<Rightarrow> nat \<Rightarrow> 'b) \<Rightarrow> nat \<Rightarrow> 'a list \<Rightarrow> 'b list" where
  "mapIndexed f i [] = []"
| "mapIndexed f i (a # as) = f a i # mapIndexed f (Suc i) as"

fun join :: "string \<Rightarrow> string list \<Rightarrow> string" where
  "join sep [] = ''''"
| "join sep [a] = a"
| "join sep (a # b # bs) = a @ sep @ join sep (b # bs)"

definition buildPathData :: "(real \<Rightarrow> string) \<Rightarrow> TelemetryPoint list \<Rightarrow> NormParams \<Rightarrow> string" where
  "buildPathData expo telemetry params =
     join '' ''
       (mapIndexed
          (\<lambda>p i. let (x, y) = normPoint p params
                 in (if i = 0 then ''M'' else ''L'') @ '' '' @ toFixed expo 2 x
                      @ '' '' @ toFixed expo 2 y)
          0 telemetry)"

subsection \<open>Speed colour\<close>

text \<open>
  \<^verbatim>\<open>Math.round\<close> rounds to the nearest integer, a tie upwards. \<open>speedT\<close> is the local
  \<^verbatim>\<open>t\<close> of \<^verbatim>\<open>speedColor\<close>; the parameters \<^verbatim>\<open>speed\<close>, \<^verbatim>\<open>min\<close>, \<^verbatim>\<open>max\<close> are \<open>spd\<close>, \<open>mn\<close>,
  \<open>mx\<close>.
\<close>

definition Math_round :: "real \<Rightarrow> int" where
  "Math_round x = \<lfloor>x + 1 / 2\<rfloor>"

definition speedT :: "real \<Rightarrow> real \<Rightarrow> real \<Rightarrow> real" where
  "speedT spd mn mx = max 0 (min 1 ((spd - mn) / orElse (mx - mn) 1))"

definition speedColor :: "real \<Rightarrow> real \<Rightarrow> real \<Rightarrow> string" where
  "speedColor spd mn mx =
     (let t = speedT spd mn mx;
          r = Math_round (30 + t * 225);
          g = Math_round (120 - t * 100);
          b = Math_round (255 - t * 230)
      in ''rgb('' @ showInt r @ '','' @ showInt g @ '','' @ showInt b @ '')'')"

subsection \<open>The component's constants and start marker\<close>

definition SIZE :: real where "SIZE = 800"
definition PADDING :: real where "PADDING = 40"

text \<open>
  The start marker of the component: \<^verbatim>\<open>normPoint(telemetry[0], normParams)\<close> when the
  array is not empty, \<^verbatim>\<open>null\<close> otherwise.
\<close>

definition startPos :: "TelemetryPoint list \<Rightarrow> (real \<times> real) option" where
  "startPos telemetry =
     (if length telemetry > 0
      then map_option (normPoint (telemetry ! 0)) (buildNormParams telemetry SIZE PADDING)
      else None)"

section \<open>The older variant of the component\<close>

text \<open>
  The older \<^verbatim>\<open>TrackMap\<close> has no \<^verbatim>\<open>buildNormParams\<close>: its \<^verbatim>\<open>buildPathData\<close> takes the
  view box size and the padding and derives minima, ranges, scale and offsets itself,
  and the start marker repeats the computation inline with the component's \<^verbatim>\<open>SIZE\<close> and
  \<^verbatim>\<open>PADDING\<close>. On an empty array no point is projected and the joined string is empty.
\<close>

definition legacy_buildPathData ::
  "(real \<Rightarrow> string) \<Rightarrow> TelemetryPoint list \<Rightarrow> real \<Rightarrow> real \<Rightarrow> string" where
  "legacy_buildPathData expo telemetry viewBoxSize padding =
     (case
        do {
          let xs = map x_coordinate telemetry;
          let ys = map y_coordinate telemetry;
          minX \<leftarrow> Math_min xs;
          maxX \<leftarrow> Math_max xs;
          minY \<leftarrow> Math_min ys;
          maxY \<leftarrow> Math_max ys;
          let rangeX = orElse (maxX - minX) 1;
          let rangeY = orElse (maxY - minY) 1;
          let maxRange = max rangeX rangeY;
          let drawable = viewBoxSize - padding * 2;
          let scale = drawable / maxRange;
          let offsetX = padding + (drawable - rangeX * scale) / 2;
          let offsetY = padding + (drawable - rangeY * scale) / 2;
          let points =
            map (\<lambda>p. let x = (x_coordinate p - minX) * scale + offsetX;
                         y = (y_coordinate p - minY) * scale + offsetY
                     in (x, y))
              telemetry;
          Some (join '' ''
                  (mapIndexed
                     (\<lambda>pt i. (if i = 0 then ''M'' else ''L'') @ '' ''
                                @ toFixed expo 2 (fst pt) @ '' '' @ toFixed expo 2 (snd pt))
                     0 points))
        }
      of None \<Rightarrow> '''' | Some pathData \<Rightarrow> pathData)"

definition legacy_startMarker :: "TelemetryPoint list \<Rightarrow> (real \<times> real) option" where
  "legacy_startMarker telemetry =
     (if length telemetry > 0
      then do {
             let xs = map x_coordinate telemetry;
             let ys = map y_coordinate telemetry;
             minX \<leftarrow> Math_min xs;
             maxX \<leftarrow> Math_max xs;
             minY \<leftarrow> Math_min ys;
             maxY \<leftarrow> Math_max ys;
             let rangeX = orElse (maxX - minX) 1;
             let rangeY = orElse (maxY - minY) 1;
             let maxRange = max rangeX rangeY;
             let drawable = SIZE - PADDING * 2;
             let scale = drawable / maxRange;
             let offsetX = PADDING + (drawable - rangeX * scale) / 2;
             let offsetY = PADDING + (drawable - rangeY * scale) / 2;
             let sx = (x_coordinate (telemetry ! 0) - minX) * scale + offsetX;
             let sy = (y_coordinate (telemetry ! 0) - minY) * scale + offsetY;
             Some (sx, sy)
           }
      else None)"

section \<open>Playback controller\<close>

text \<open>
  The component keeps \<^verbatim>\<open>currentIndex\<close> and \<^verbatim>\<open>isPlaying\<close> as React state and the handle
  of the running interval timer in \<^verbatim>\<open>intervalRef\<close>. The browser's table of armed interval
  timers is part of the modelled state, so that a timer that is armed but no longer
  referenced would show: \<open>activeIntervals\<close> holds the handles that \<^verbatim>\<open>setInterval\<close> has
  returned and \<^verbatim>\<open>clearInterval\<close> has not yet cancelled, \<open>nextHandle\<close> is the next fresh
  handle.
\<close>

record PlaybackState =
  currentIndex :: int
  isPlaying :: bool
  intervalRef :: "nat option"
  activeIntervals :: "nat set"
  nextHandle :: nat

definition initialState :: PlaybackState where
  "initialState =
     \<lparr>currentIndex = 0, isPlaying = False, intervalRef = None,
      activeIntervals = {}, nextHandle = 1\<rparr>"

text \<open>\<^verbatim>\<open>setInterval\<close> arms a new timer and returns its handle.\<close>

definition setInterval :: "PlaybackState \<Rightarrow> nat \<times> PlaybackState" where
  "setInterval s =
     (nextHandle s,
      s\<lparr>activeIntervals := insert (nextHandle s) (activeIntervals s),
        nextHandle := Suc (nextHandle s)\<rparr>)"

text \<open>\<^verbatim>\<open>clearInterval\<close> cancels the timer of a handle; \<^verbatim>\<open>null\<close> cancels nothing.\<close>

fun clearInterval :: "nat option \<Rightarrow> PlaybackState \<Rightarrow> PlaybackState" where
  "clearInterval None s = s"
| "clearInterval (Some h) s = s\<lparr>activeIntervals := activeIntervals s - {h}\<rparr>"

definition stopPlayback :: "PlaybackState \<Rightarrow> PlaybackState" where
  "stopPlayback s =
     (let s1 = (if intervalRef s \<noteq> None
                then (clearInterval (intervalRef s) s)\<lparr>intervalRef := None\<rparr>
                else s)
      in s1\<lparr>isPlaying := False\<rparr>)"

definition startPlayback :: "TelemetryPoint list \<Rightarrow> PlaybackState \<Rightarrow> PlaybackState" where
  "startPlayback telemetry s =
     (if length telemetry = 0 then s
      else let s1 = s\<lparr>isPlaying := True\<rparr>;
               (h, s2) = setInterval s1
           in s2\<lparr>intervalRef := Some h\<rparr>)"

text \<open>
  The callback that \<^verbatim>\<open>startPlayback\<close> hands to \<^verbatim>\<open>setInterval\<close>: one tick of the timer. It
  is the updater passed to \<^verbatim>\<open>setCurrentIndex\<close>, which reads the latest index as \<^verbatim>\<open>prev\<close>.
\<close>

definition tick :: "TelemetryPoint list \<Rightarrow> PlaybackState \<Rightarrow> PlaybackState" where
  "tick telemetry s =
     (let prev = currentIndex s;
          next = prev + 1
      in if next \<ge> int (length telemetry)
         then (clearInterval (intervalRef s) s)
                \<lparr>currentIndex := prev, isPlaying := False, intervalRef := None\<rparr>
         else s\<lparr>currentIndex := next\<rparr>)"

text \<open>
  \<^verbatim>\<open>handlePlayPause\<close> is created anew by every render and reads \<^verbatim>\<open>isPlaying\<close> and
  \<^verbatim>\<open>currentIndex\<close> as that render captured them: \<open>r\<close> is the state that was rendered, \<open>s\<close>
  the state at the click. The setters and the timer reference act on \<open>s\<close>.
\<close>

definition handlePlayPause ::
  "TelemetryPoint list \<Rightarrow> PlaybackState \<Rightarrow> PlaybackState \<Rightarrow> PlaybackState" where
  "handlePlayPause telemetry r s =
     (if isPlaying r then stopPlayback s
      else startPlayback telemetry
             (if currentIndex r \<ge> int (length telemetry) - 1
              then s\<lparr>currentIndex := 0\<rparr> else s))"

text \<open>
  The slider handler receives \<^verbatim>\<open>Number(e.target.value)\<close>; the argument \<open>v\<close> is that
  number.
\<close>

definition handleSliderChange :: "int \<Rightarrow> PlaybackState \<Rightarrow> PlaybackState" where
  "handleSliderChange v s = (stopPlayback s)\<lparr>currentIndex := v\<rparr>"

definition progress :: "TelemetryPoint list \<Rightarrow> PlaybackState \<Rightarrow> real" where
  "progress telemetry s =
     (if length telemetry > 1
      then (real_of_int (currentIndex s) / (real (length telemetry) - 1)) * 100
      else 0)"

text \<open>
  What can happen to a mounted component: the play/pause button is clicked, the slider
  is moved to a value, or an armed timer fires. The button is the component's only way
  to play and to pause, and the only caller of \<^verbatim>\<open>startPlayback\<close>: playing is a click on a
  render that shows \<^verbatim>\<open>isPlaying\<close> false, pausing a click on a render that shows it true.
  A timer fires only while it is armed.
\<close>

datatype event = Toggle | Seek int | Tick

text \<open>
  An event that arrives in a task of its own finds the component rendered from the
  current state: \<open>step\<close> handles the event with the handlers of that render, and \<open>run\<close>
  handles a sequence of such events from the mounted component's initial state.
\<close>

fun step :: "TelemetryPoint list \<Rightarrow> PlaybackState \<Rightarrow> event \<Rightarrow> PlaybackState" where
  "step telemetry s Toggle = handlePlayPause telemetry s s"
| "step telemetry s (Seek v) = handleSliderChange v s"
| "step telemetry s Tick = (if activeIntervals s = {} then s else tick telemetry s)"

definition run :: "TelemetryPoint list \<Rightarrow> event list \<Rightarrow> PlaybackState" where
  "run telemetry evs = foldl (step telemetry) initialState evs"

text \<open>
  Events can also be dispatched before the component has rendered again. The component
  is then the pair of the state last rendered, whose handlers are installed, and the
  current state: dispatching an event runs the installed handler on the current state,
  a re-render installs the handlers of the current state.
\<close>

datatype occurrence = Dispatch event | Rerender

fun advance ::
  "TelemetryPoint list \<Rightarrow> PlaybackState \<times> PlaybackState \<Rightarrow> occurrence
     \<Rightarrow> PlaybackState \<times> PlaybackState" where
  "advance telemetry (r, s) (Dispatch Toggle) = (r, handlePlayPause telemetry r s)"
| "advance telemetry (r, s) (Dispatch (Seek v)) = (r, handleSliderChange v s)"
| "advance telemetry (r, s) (Dispatch Tick) =
     (r, if activeIntervals s = {} then s else tick telemetry s)"
| "advance telemetry (r, s) Rerender = (s, s)"

definition runTasks ::
  "TelemetryPoint list \<Rightarrow> occurrence list \<Rightarrow> PlaybackState \<times> PlaybackState" where
  "runTasks telemetry os = foldl (advance telemetry) (initialState, initialState) os"

text \<open>
  A re-render separates any two button clicks: \<open>clicked\<close> tells whether the button has
  been clicked since the last render.
\<close>

fun clicksSeparated :: "bool \<Rightarrow> occurrence list \<Rightarrow> bool" where
  "clicksSeparated clicked [] = True"
| "clicksSeparated clicked (Rerender # os) = clicksSeparated False os"
| "clicksSeparated clicked (Dispatch Toggle # os) = (\<not> clicked \<and> clicksSeparated True os)"
| "clicksSeparated clicked (Dispatch e # os) = clicksSeparated clicked os"

text \<open>The slider is a range input with \<^verbatim>\<open>min = 0\<close> and \<^verbatim>\<open>max = telemetry.length - 1\<close>.\<close>

fun sliderValue :: "TelemetryPoint list \<Rightarrow> event \<Rightarrow> bool" where
  "sliderValue telemetry (Seek v) = (0 \<le> v \<and> v \<le> int (length telemetry) - 1)"
| "sliderValue telemetry _ = True"

text \<open>The clamp of the specification's seek operation.\<close>

definition clampIndex :: "nat \<Rightarrow> int \<Rightarrow> int" where
  "clampIndex n v = max 0 (min (int n - 1) v)"

text \<open>The timer invariant: the handle is stored exactly while playing, and the stored
  handle is the only armed timer.\<close>

definition timerInvariant :: "PlaybackState \<Rightarrow> bool" where
  "timerInvariant s =
     ((intervalRef s \<noteq> None) = isPlaying s \<and>
      activeIntervals s = set_option (intervalRef s))"

text \<open>Every armed timer has a handle that \<^verbatim>\<open>setInterval\<close> has already given out, so the
  next handle is new.\<close>

definition handlesFresh :: "PlaybackState \<Rightarrow> bool" where
  "handlesFresh s = (activeIntervals s \<subseteq> {..<nextHandle s})"


text \<open>The cursor stays on a sample (or at 0 when there is none).\<close>

definition indexInRange :: "TelemetryPoint list \<Rightarrow> PlaybackState \<Rightarrow> bool" where
  "indexInRange telemetry s =
     (0 \<le> currentIndex s \<and> currentIndex s \<le> max 0 (int (length telemetry) - 1))"

section \<open>A sample track\<close>

text \<open>Three samples, used where a statement is evaluated on concrete data.\<close>

definition samplePoint :: "real \<Rightarrow> real \<Rightarrow> real \<Rightarrow> TelemetryPoint" where
  "samplePoint x y v =
     \<lparr>x_coordinate = x, y_coordinate = y, speed = v,
      n_gear = None, throttle = None, brake = None\<rparr>"

definition sampleTrack :: "TelemetryPoint list" where
  "sampleTrack = [samplePoint 0 0 100, samplePoint 30 40 250, samplePoint 60 0 180]"

text \<open>The same track driven at one speed throughout.\<close>

definition steadyTrack :: "TelemetryPoint list" where
  "steadyTrack = [samplePoint 0 0 200, samplePoint 30 40 200, samplePoint 60 0 200]"

section \<open>Properties of the playback controller\<close>

lemma stopPlayback_fields:
  "currentIndex (stopPlayback s) = currentIndex s"
  "isPlaying (stopPlayback s) = False"
  "intervalRef (stopPlayback s) = None"
  "activeIntervals (stopPlayback s) = activeIntervals s - set_option (intervalRef s)"
  "nextHandle (stopPlayback s) = nextHandle s"
  by (cases "intervalRef s"; simp add: stopPlayback_def)+


lemma startPlayback_fields:
  "length telemetry \<noteq> 0 \<Longrightarrow> currentIndex (startPlayback telemetry s) = currentIndex s"
  "length telemetry \<noteq> 0 \<Longrightarrow> isPlaying (startPlayback telemetry s) = True"
  "length telemetry \<noteq> 0 \<Longrightarrow> intervalRef (startPlayback telemetry s) = Some (nextHandle s)"
  "length telemetry \<noteq> 0 \<Longrightarrow>
     activeIntervals (startPlayback telemetry s) = insert (nextHandle s) (activeIntervals s)"
  by (simp_all add: startPlayback_def setInterval_def)

lemma startPlayback_empty: "length telemetry = 0 \<Longrightarrow> startPlayback telemetry s = s"
  by (simp add: startPlayback_def)

text \<open>
  The handler stores the slider's value as it is: it applies no clamp. On a track of ten
  samples the values \<open>-5\<close> and \<open>999\<close> become the cursor, where the clamp would give
  \<open>0\<close> and \<open>9\<close>.
\<close>

theorem seek_counterexample:
  "length (replicate 10 (samplePoint 0 0 0)) = 10 \<and>
   currentIndex (handleSliderChange (- 5) (run (replicate 10 (samplePoint 0 0 0)) [])) = - 5 \<and>
   currentIndex (handleSliderChange (- 5) (run (replicate 10 (samplePoint 0 0 0)) []))
     \<noteq> clampIndex (length (replicate 10 (samplePoint 0 0 0))) (- 5) \<and>
   clampIndex (length (replicate 10 (samplePoint 0 0 0))) (- 5) = 0 \<and>
   currentIndex (handleSliderChange 999 (run (replicate 10 (samplePoint 0 0 0)) [])) = 999 \<and>
   currentIndex (handleSliderChange 999 (run (replicate 10 (samplePoint 0 0 0)) []))
     \<noteq> clampIndex (length (replicate 10 (samplePoint 0 0 0))) 999 \<and>
   clampIndex (length (replicate 10 (samplePoint 0 0 0))) 999 = 9"
  by (simp add: handleSliderChange_def clampIndex_def)

text \<open>
  Claim C3, as the code has it: for a track of \<open>n \<ge> 1\<close> samples and a value \<open>v\<close> that the
  range input can deliver, \<open>0 \<le> v \<le> n - 1\<close>, the slider handler sets the cursor to \<open>v\<close>,
  which is \<open>v\<close> clamped into \<open>[0, n - 1]\<close>; it cancels the timer of the stored handle,
  clears the handle and sets \<open>isPlaying\<close> to false.
\<close>

theorem seek_in_range:
  assumes "1 \<le> length telemetry" and "0 \<le> v" and "v \<le> int (length telemetry) - 1"
  shows "currentIndex (handleSliderChange v s) = clampIndex (length telemetry) v \<and>
         currentIndex (handleSliderChange v s) = v \<and>
         isPlaying (handleSliderChange v s) = False \<and>
         intervalRef (handleSliderChange v s) = None \<and>
         activeIntervals (handleSliderChange v s)
           = activeIntervals s - set_option (intervalRef s)"
  using assms by (simp add: handleSliderChange_def clampIndex_def stopPlayback_fields)

lemma timerInvariant_stop: "timerInvariant s \<Longrightarrow> timerInvariant (stopPlayback s)"
  by (simp add: timerInvariant_def stopPlayback_fields)

lemma timerInvariant_start:
  "timerInvariant s \<Longrightarrow> \<not> isPlaying s \<Longrightarrow> timerInvariant (startPlayback telemetry s)"
  by (cases "length telemetry = 0")
     (auto simp add: timerInvariant_def startPlayback_fields startPlayback_empty)

lemma timerInvariant_tick: "timerInvariant s \<Longrightarrow> timerInvariant (tick telemetry s)"
  by (cases "intervalRef s") (auto simp add: timerInvariant_def tick_def Let_def)

lemma timerInvariant_toggle: "timerInvariant s \<Longrightarrow> timerInvariant (handlePlayPause telemetry s s)"
proof (cases "isPlaying s")
  case True
  assume "timerInvariant s"
  with True show ?thesis by (simp add: handlePlayPause_def timerInvariant_stop)
next
  case False
  assume inv: "timerInvariant s"
  let ?s = "if currentIndex s \<ge> int (length telemetry) - 1 then s\<lparr>currentIndex := 0\<rparr> else s"
  have "timerInvariant ?s" "\<not> isPlaying ?s"
    using inv False by (simp_all add: timerInvariant_def)
  then have "timerInvariant (startPlayback telemetry ?s)" by (rule timerInvariant_start)
  with False show ?thesis by (simp add: handlePlayPause_def)
qed

lemma timerInvariant_seek: "timerInvariant s \<Longrightarrow> timerInvariant (handleSliderChange v s)"
  by (simp add: timerInvariant_def handleSliderChange_def stopPlayback_fields)

lemma timerInvariant_step: "timerInvariant s \<Longrightarrow> timerInvariant (step telemetry s e)"
  by (cases e) (simp_all add: timerInvariant_toggle timerInvariant_seek timerInvariant_tick)

lemma timerInvariant_foldl:
  "timerInvariant s \<Longrightarrow> timerInvariant (foldl (step telemetry) s evs)"
  by (induction evs arbitrary: s) (simp_all add: timerInvariant_step)

lemma handlesFresh_step: "handlesFresh s \<Longrightarrow> handlesFresh (step telemetry s e)"
proof (cases e)
  case Toggle
  assume "handlesFresh s"
  then show ?thesis
    unfolding Toggle
    by (cases "intervalRef s")
       (auto simp add: handlesFresh_def handlePlayPause_def stopPlayback_def startPlayback_def
          setInterval_def Let_def less_Suc_eq)
next
  case (Seek v)
  assume "handlesFresh s"
  then show ?thesis
    unfolding Seek
    by (cases "intervalRef s")
       (auto simp add: handlesFresh_def handleSliderChange_def stopPlayback_def)
next
  case Tick
  assume "handlesFresh s"
  then show ?thesis
    unfolding Tick
    by (cases "intervalRef s") (auto simp add: handlesFresh_def tick_def Let_def)
qed

lemma handlesFresh_foldl:
  "handlesFresh s \<Longrightarrow> handlesFresh (foldl (step telemetry) s evs)"
  by (induction evs arbitrary: s) (simp_all add: handlesFresh_step)

lemma handlesFresh_run: "handlesFresh (run telemetry evs)"
  unfolding run_def
  by (rule handlesFresh_foldl) (simp add: handlesFresh_def initialState_def)

text \<open>The invariants in every state that \<open>run\<close> reaches.\<close>

lemma run_timer_invariant:
  "(intervalRef (run telemetry evs) \<noteq> None) = isPlaying (run telemetry evs) \<and>
   activeIntervals (run telemetry evs) = set_option (intervalRef (run telemetry evs)) \<and>
   card (activeIntervals (run telemetry evs)) \<le> 1 \<and>
   activeIntervals (run telemetry evs) \<subseteq> {..<nextHandle (run telemetry evs)}"
proof -
  have "timerInvariant initialState" by (simp add: timerInvariant_def initialState_def)
  then have inv: "timerInvariant (run telemetry evs)"
    unfolding run_def by (rule timerInvariant_foldl)
  then have "card (activeIntervals (run telemetry evs)) \<le> 1"
    by (cases "intervalRef (run telemetry evs)") (simp_all add: timerInvariant_def)
  moreover have "activeIntervals (run telemetry evs) \<subseteq> {..<nextHandle (run telemetry evs)}"
    using handlesFresh_run [of telemetry evs] by (simp only: handlesFresh_def)
  ultimately show ?thesis using inv by (simp add: timerInvariant_def)
qed














text \<open>
  Events that each arrive on a fresh render are such a sequence: \<open>run\<close> is \<open>runTasks\<close> with
  a re-render before every event.
\<close>

lemma run_as_tasks:
  "foldl (advance telemetry) (r, s) (concat (map (\<lambda>e. [Rerender, Dispatch e]) evs))
     = (if evs = [] then r else foldl (step telemetry) s (butlast evs),
        foldl (step telemetry) s evs)"
proof (induction evs arbitrary: r s)
  case Nil
  show ?case by simp
next
  case (Cons e evs)
  have one: "advance telemetry (s, s) (Dispatch e) = (s, step telemetry s e)"
    by (cases e) simp_all
  show ?case by (simp add: one Cons.IH)
qed

lemma run_runTasks:
  "run telemetry evs = snd (runTasks telemetry (concat (map (\<lambda>e. [Rerender, Dispatch e]) evs)))"
  by (simp add: run_def runTasks_def run_as_tasks)

lemma run_clicksSeparated:
  "clicksSeparated c (concat (map (\<lambda>e. [Rerender, Dispatch e]) evs))"
proof (induction evs arbitrary: c)
  case Nil
  show ?case by simp
next
  case (Cons e evs)
  show ?case by (cases e) (simp_all add: Cons.IH)
qed

text \<open>
  Claim C4: on a track of \<open>n \<ge> 1\<close> samples, a tick that fires while the cursor is
  \<open>n - 1\<close> cancels the timer, clears the handle, sets \<open>isPlaying\<close> to false and leaves
  the cursor at \<open>n - 1\<close>. A tick never moves a cursor backwards and never moves a cursor
  that is at most \<open>n - 1\<close> beyond \<open>n - 1\<close>.
\<close>

theorem tick_at_end:
  assumes "1 \<le> length telemetry" and "timerInvariant s"
    and "currentIndex s = int (length telemetry) - 1"
  shows "currentIndex (tick telemetry s) = int (length telemetry) - 1 \<and>
         isPlaying (tick telemetry s) = False \<and>
         intervalRef (tick telemetry s) = None \<and>
         activeIntervals (tick telemetry s) = {} \<and>
         (currentIndex t \<le> int (length telemetry) - 1 \<longrightarrow>
            currentIndex t \<le> currentIndex (tick telemetry t) \<and>
            currentIndex (tick telemetry t) \<le> int (length telemetry) - 1)"
proof -
  have "activeIntervals s - set_option (intervalRef s) = {}"
    using assms(2) by (simp add: timerInvariant_def)
  then have "activeIntervals (clearInterval (intervalRef s) s) = {}"
    by (cases "intervalRef s") simp_all
  then show ?thesis
    using assms(3) by (simp add: tick_def Let_def)
qed

lemma run_sample_playing:
  "run sampleTrack [Toggle, Tick, Tick] =
     \<lparr>currentIndex = 2, isPlaying = True, intervalRef = Some 1,
      activeIntervals = {1}, nextHandle = 2\<rparr>"
  by (simp add: run_def sampleTrack_def initialState_def handlePlayPause_def
        startPlayback_def setInterval_def tick_def Let_def)

theorem tick_at_end_witness:
  "1 \<le> length sampleTrack \<and> timerInvariant (run sampleTrack [Toggle, Tick, Tick]) \<and>
   currentIndex (run sampleTrack [Toggle, Tick, Tick]) = int (length sampleTrack) - 1 \<and>
   currentIndex (tick sampleTrack (run sampleTrack [Toggle, Tick, Tick])) = 2 \<and>
   isPlaying (tick sampleTrack (run sampleTrack [Toggle, Tick, Tick])) = False \<and>
   intervalRef (tick sampleTrack (run sampleTrack [Toggle, Tick, Tick])) = None \<and>
   activeIntervals (tick sampleTrack (run sampleTrack [Toggle, Tick, Tick])) = {} \<and>
   currentIndex initialState \<le> int (length sampleTrack) - 1 \<and>
   currentIndex initialState \<le> currentIndex (tick sampleTrack initialState) \<and>
   currentIndex (tick sampleTrack initialState) \<le> int (length sampleTrack) - 1"
proof -
  have h1: "1 \<le> length sampleTrack" by (simp add: sampleTrack_def)
  have h2: "timerInvariant (run sampleTrack [Toggle, Tick, Tick])"
    by (simp add: run_sample_playing timerInvariant_def)
  have h3: "currentIndex (run sampleTrack [Toggle, Tick, Tick]) = int (length sampleTrack) - 1"
    by (simp add: run_sample_playing) (simp add: sampleTrack_def)
  have len: "int (length sampleTrack) - 1 = 2" by (simp add: sampleTrack_def)
  have h4: "currentIndex initialState \<le> int (length sampleTrack) - 1"
    by (simp add: initialState_def sampleTrack_def)
  show ?thesis
    using h1 h2 h3 h4 tick_at_end [OF h1 h2 h3, of initialState] by (simp add: len)
qed

text \<open>
  Claim C5: on a track of \<open>n \<ge> 1\<close> samples, a click on the button while stopped with
  the cursor at \<open>n - 1\<close>, on the render of that state, resets the cursor to \<open>0\<close>, sets
  \<open>isPlaying\<close> and arms a fresh timer; the first tick then starts from \<open>0\<close>: it moves the
  cursor to \<open>1\<close>, or stops at \<open>0\<close> when the track has a single sample.
\<close>

theorem play_from_end:
  assumes "1 \<le> length telemetry" and "\<not> isPlaying s"
    and "currentIndex s = int (length telemetry) - 1"
  shows "currentIndex (handlePlayPause telemetry s s) = 0 \<and>
         isPlaying (handlePlayPause telemetry s s) = True \<and>
         intervalRef (handlePlayPause telemetry s s) = Some (nextHandle s) \<and>
         activeIntervals (handlePlayPause telemetry s s)
           = insert (nextHandle s) (activeIntervals s) \<and>
         currentIndex (tick telemetry (handlePlayPause telemetry s s))
           = min 1 (int (length telemetry) - 1)"
proof -
  let ?s0 = "s\<lparr>currentIndex := 0\<rparr>"
  have ne: "length telemetry \<noteq> 0" using assms(1) by (cases telemetry) simp_all
  have eq: "handlePlayPause telemetry s s = startPlayback telemetry ?s0"
    using assms(2,3) by (simp add: handlePlayPause_def)
  have idx: "currentIndex (startPlayback telemetry ?s0) = 0"
    using startPlayback_fields(1) [OF ne, of ?s0] by simp
  have "currentIndex (tick telemetry (startPlayback telemetry ?s0))
          = min 1 (int (length telemetry) - 1)"
    using assms(1) idx by (auto simp add: tick_def Let_def)
  then show ?thesis
    using startPlayback_fields [OF ne, of ?s0] by (simp add: eq)
qed

lemma run_sample_end:
  "run sampleTrack [Seek 2] =
     \<lparr>currentIndex = 2, isPlaying = False, intervalRef = None,
      activeIntervals = {}, nextHandle = 1\<rparr>"
  by (simp add: run_def sampleTrack_def initialState_def handleSliderChange_def
        stopPlayback_def)

theorem play_from_end_witness:
  "1 \<le> length sampleTrack \<and> \<not> isPlaying (run sampleTrack [Seek 2]) \<and>
   currentIndex (run sampleTrack [Seek 2]) = int (length sampleTrack) - 1 \<and>
   currentIndex (handlePlayPause sampleTrack (run sampleTrack [Seek 2]) (run sampleTrack [Seek 2])) = 0 \<and>
   isPlaying (handlePlayPause sampleTrack (run sampleTrack [Seek 2]) (run sampleTrack [Seek 2])) = True \<and>
   intervalRef (handlePlayPause sampleTrack (run sampleTrack [Seek 2]) (run sampleTrack [Seek 2])) = Some 1 \<and>
   currentIndex (tick sampleTrack (handlePlayPause sampleTrack (run sampleTrack [Seek 2]) (run sampleTrack [Seek 2]))) = 1"
proof -
  have h1: "1 \<le> length sampleTrack" by (simp add: sampleTrack_def)
  have h2: "\<not> isPlaying (run sampleTrack [Seek 2])" by (simp add: run_sample_end)
  have h3: "currentIndex (run sampleTrack [Seek 2]) = int (length sampleTrack) - 1"
    by (simp add: run_sample_end) (simp add: sampleTrack_def)
  have len: "int (length sampleTrack) - 1 = 2" by (simp add: sampleTrack_def)
  show ?thesis
    using h1 h2 h3 play_from_end [OF h1 h2 h3] by (simp add: len run_sample_end)
qed

theorem seek_in_range_witness:
  "1 \<le> length sampleTrack \<and> (0::int) \<le> 1 \<and> 1 \<le> int (length sampleTrack) - 1 \<and>
   currentIndex (handleSliderChange 1 (run sampleTrack [Toggle, Tick, Tick])) = 1 \<and>
   isPlaying (handleSliderChange 1 (run sampleTrack [Toggle, Tick, Tick])) = False \<and>
   intervalRef (handleSliderChange 1 (run sampleTrack [Toggle, Tick, Tick])) = None \<and>
   activeIntervals (handleSliderChange 1 (run sampleTrack [Toggle, Tick, Tick])) = {}"
proof -
  have h1: "1 \<le> length sampleTrack" by (simp add: sampleTrack_def)
  have h2: "(0::int) \<le> 1" by simp
  have h3: "1 \<le> int (length sampleTrack) - 1" by (simp add: sampleTrack_def)
  show ?thesis
    using h1 h3 seek_in_range [OF h1 h2 h3, of "run sampleTrack [Toggle, Tick, Tick]"]
    by (simp add: run_sample_playing)
qed

lemma indexInRange_step:
  assumes "indexInRange telemetry s" and "sliderValue telemetry e"
  shows "indexInRange telemetry (step telemetry s e)"
proof (cases e)
  case Toggle
  have "currentIndex (startPlayback telemetry t) = currentIndex t" for t
    by (simp add: startPlayback_def setInterval_def)
  with assms(1) Toggle show ?thesis
    by (simp add: indexInRange_def handlePlayPause_def stopPlayback_fields)
next
  case (Seek v)
  with assms(2) show ?thesis
    by (auto simp add: indexInRange_def handleSliderChange_def)
next
  case Tick
  with assms(1) show ?thesis
    by (auto simp add: indexInRange_def tick_def Let_def)
qed

lemma indexInRange_foldl:
  "indexInRange telemetry s \<Longrightarrow> list_all (sliderValue telemetry) evs \<Longrightarrow>
   indexInRange telemetry (foldl (step telemetry) s evs)"
  by (induction evs arbitrary: s) (simp_all add: indexInRange_step)

lemma indexInRange_run:
  "list_all (sliderValue telemetry) evs \<Longrightarrow> indexInRange telemetry (run telemetry evs)"
  unfolding run_def by (rule indexInRange_foldl) (simp add: indexInRange_def initialState_def)

text \<open>
  The progress value is a percentage: with the cursor on the last of three samples it is
  \<open>100\<close>, not the fraction \<open>2 / 2\<close>, and it is not in \<open>[0, 1]\<close>.
\<close>

theorem progress_fraction_counterexample:
  "progress sampleTrack (run sampleTrack [Seek 2]) = 100 \<and>
   progress sampleTrack (run sampleTrack [Seek 2])
     \<noteq> real_of_int (currentIndex (run sampleTrack [Seek 2])) / (real (length sampleTrack) - 1) \<and>
   \<not> progress sampleTrack (run sampleTrack [Seek 2]) \<le> 1"
  by (simp add: run_sample_end progress_def) (simp add: sampleTrack_def)

text \<open>
  Claim C6, as the code has it: in every state reached by button clicks, timer ticks and
  slider moves to values of the range input, the progress value is
  \<open>100 * currentIndex / (length - 1)\<close>, it lies in \<open>[0, 100]\<close>, and it is \<open>0\<close> when the
  track has at most one sample.
\<close>

theorem progress_percentage:
  assumes "list_all (sliderValue telemetry) evs"
  shows "progress telemetry (run telemetry evs)
           = (if length telemetry \<le> 1 then 0
              else 100 * (real_of_int (currentIndex (run telemetry evs))
                            / (real (length telemetry) - 1))) \<and>
         0 \<le> progress telemetry (run telemetry evs) \<and>
         progress telemetry (run telemetry evs) \<le> 100"
proof (cases "length telemetry \<le> 1")
  case True
  then show ?thesis by (simp add: progress_def)
next
  case False
  define i where "i = real_of_int (currentIndex (run telemetry evs))"
  define d where "d = real (length telemetry) - 1"
  have d: "0 < d" using False by (simp add: d_def)
  have "indexInRange telemetry (run telemetry evs)"
    using assms by (rule indexInRange_run)
  then have "0 \<le> currentIndex (run telemetry evs)"
    and "currentIndex (run telemetry evs) \<le> int (length telemetry) - 1"
    using False by (simp_all add: indexInRange_def)
  then have i: "0 \<le> i" "i \<le> d" by (simp_all add: i_def d_def)
  have q: "0 \<le> i / d" "i / d \<le> 1" using i d by simp_all
  have r: "0 \<le> 100 * (i / d)" "100 * (i / d) \<le> 100" using q by linarith+
  have p: "progress telemetry (run telemetry evs) = 100 * (i / d)"
    using False by (simp add: progress_def i_def d_def)
  show ?thesis using False r unfolding p by (simp add: i_def d_def)
qed

theorem progress_percentage_witness:
  "list_all (sliderValue sampleTrack) [Toggle, Tick, Seek 1] \<and>
   progress sampleTrack (run sampleTrack [Toggle, Tick, Seek 1]) = 50 \<and>
   0 \<le> progress sampleTrack (run sampleTrack [Toggle, Tick, Seek 1]) \<and>
   progress sampleTrack (run sampleTrack [Toggle, Tick, Seek 1]) \<le> 100"
proof -
  have h: "list_all (sliderValue sampleTrack) [Toggle, Tick, Seek 1]"
    by (simp add: sampleTrack_def)
  have v: "progress sampleTrack (run sampleTrack [Toggle, Tick, Seek 1]) = 50"
    by (simp add: progress_def run_def sampleTrack_def initialState_def handlePlayPause_def
          startPlayback_def setInterval_def tick_def Let_def handleSliderChange_def
          stopPlayback_def)
  show ?thesis using h v progress_percentage [OF h] by simp
qed

section \<open>Properties of the projection\<close>

lemma fold_min_Min: "fold min vs v = Min (insert v (set vs))"
  using Min.set_eq_fold [of v vs] by simp

lemma fold_max_Max: "fold max vs v = Max (insert v (set vs))"
  using Max.set_eq_fold [of v vs] by simp

lemma Math_min_eq: "vs \<noteq> [] \<Longrightarrow> Math_min vs = Some (Min (set vs))"
  by (cases vs) (simp_all add: fold_min_Min)

lemma Math_max_eq: "vs \<noteq> [] \<Longrightarrow> Math_max vs = Some (Max (set vs))"
  by (cases vs) (simp_all add: fold_max_Max)

lemma buildNormParams_nonempty:
  assumes "telemetry \<noteq> []"
  shows "buildNormParams telemetry S P =
     Some \<lparr>minX = Min (x_coordinate ` set telemetry),
           minY = Min (y_coordinate ` set telemetry),
           scale = (S - P * 2)
             / max (orElse (Max (x_coordinate ` set telemetry) - Min (x_coordinate ` set telemetry)) 1)
                   (orElse (Max (y_coordinate ` set telemetry) - Min (y_coordinate ` set telemetry)) 1),
           offsetX = P + ((S - P * 2)
             - orElse (Max (x_coordinate ` set telemetry) - Min (x_coordinate ` set telemetry)) 1
               * ((S - P * 2)
             / max (orElse (Max (x_coordinate ` set telemetry) - Min (x_coordinate ` set telemetry)) 1)
                   (orElse (Max (y_coordinate ` set telemetry) - Min (y_coordinate ` set telemetry)) 1))) / 2,
           offsetY = P + ((S - P * 2)
             - orElse (Max (y_coordinate ` set telemetry) - Min (y_coordinate ` set telemetry)) 1
               * ((S - P * 2)
             / max (orElse (Max (x_coordinate ` set telemetry) - Min (x_coordinate ` set telemetry)) 1)
                   (orElse (Max (y_coordinate ` set telemetry) - Min (y_coordinate ` set telemetry)) 1))) / 2\<rparr>"
  using assms by (simp add: buildNormParams_def Math_min_eq Math_max_eq Let_def)

lemma mapIndexed_map: "mapIndexed f i (map g as) = mapIndexed (\<lambda>a. f (g a)) i as"
  by (induction as arbitrary: i) simp_all

lemma sampleTrack_params:
  "buildNormParams sampleTrack SIZE PADDING =
     Some \<lparr>minX = 0, minY = 0, scale = 12, offsetX = 40, offsetY = 160\<rparr>"
  by (simp add: buildNormParams_def sampleTrack_def samplePoint_def SIZE_def PADDING_def
        orElse_def Let_def)

text \<open>
  A track of the single sample \<open>(5, 7)\<close> is projected to \<open>(40, 40)\<close>, the corner of the
  padded area, and not to the centre \<open>(400, 400)\<close> of the square.
\<close>

theorem single_point_counterexample:
  "buildNormParams [samplePoint 5 7 200] SIZE PADDING
     = Some \<lparr>minX = 5, minY = 7, scale = 720, offsetX = 40, offsetY = 40\<rparr> \<and>
   map_option (normPoint (samplePoint 5 7 200)) (buildNormParams [samplePoint 5 7 200] SIZE PADDING)
     = Some (40, 40) \<and>
   map_option (normPoint (samplePoint 5 7 200)) (buildNormParams [samplePoint 5 7 200] SIZE PADDING)
     \<noteq> Some (SIZE / 2, SIZE / 2)"
  by (simp add: buildNormParams_def normPoint_def samplePoint_def SIZE_def PADDING_def
        orElse_def Let_def)

text \<open>
  Claim C7, as the code has it: for a track of exactly one sample both coordinate ranges
  are zero and are replaced by \<open>1\<close>, so the scale is the drawable length divided by \<open>1\<close>,
  both offsets are the padding \<open>P\<close>, and the sample is projected to \<open>(P, P)\<close>.
\<close>

theorem single_point:
  "Math_min (map x_coordinate [p]) = Some (x_coordinate p) \<and>
   Math_max (map x_coordinate [p]) = Some (x_coordinate p) \<and>
   Math_min (map y_coordinate [p]) = Some (y_coordinate p) \<and>
   Math_max (map y_coordinate [p]) = Some (y_coordinate p) \<and>
   orElse (x_coordinate p - x_coordinate p) 1 = 1 \<and>
   orElse (y_coordinate p - y_coordinate p) 1 = 1 \<and>
   buildNormParams [p] S P
     = Some \<lparr>minX = x_coordinate p, minY = y_coordinate p, scale = (S - P * 2) / 1,
             offsetX = P, offsetY = P\<rparr> \<and>
   map_option (normPoint p) (buildNormParams [p] S P) = Some (P, P)"
  by (simp add: buildNormParams_def normPoint_def orElse_def Let_def)

text \<open>
  Claim C9: when all samples of a non-empty track share one speed, the minimum and the
  maximum speed coincide, the zero denominator \<open>max - min\<close> is replaced by \<open>1\<close>, the
  interpolation parameter is \<open>0\<close> for every sample and \<open>speedColor\<close> returns the same
  colour, \<^verbatim>\<open>rgb(30,120,255)\<close>, for every sample.
\<close>

theorem degenerate_speed_range:
  assumes "telemetry \<noteq> []" and "\<forall>p \<in> set telemetry. speed p = v"
  shows "\<exists>mn mx. Math_min (map speed telemetry) = Some mn \<and>
           Math_max (map speed telemetry) = Some mx \<and>
           mn = mx \<and> mx - mn = 0 \<and> orElse (mx - mn) 1 = 1 \<and>
           (\<forall>p \<in> set telemetry.
              speedT (speed p) mn mx = 0 \<and>
              speedColor (speed p) mn mx = ''rgb(30,120,255)'')"
proof -
  obtain q where q: "q \<in> set telemetry" using assms(1) by (cases telemetry) auto
  then have "v \<in> speed ` set telemetry" using assms(2) by (metis imageI)
  then have s: "set (map speed telemetry) = {v}" using assms(2) by auto
  have mn: "Math_min (map speed telemetry) = Some v"
    using assms(1) by (simp add: Math_min_eq s del: set_map)
  have mx: "Math_max (map speed telemetry) = Some v"
    using assms(1) by (simp add: Math_max_eq s del: set_map)
  have t: "speedT v v v = 0" by (simp add: speedT_def orElse_def)
  have d: "showNat 30 = ''30''" "showNat 120 = ''120''" "showNat 255 = ''255''"
    by (simp_all add: showNat.simps digitChar_def)
  have c: "speedColor v v v = ''rgb(30,120,255)''"
    by (simp add: speedColor_def t Math_round_def showInt_def d)
  show ?thesis
    using mn mx t c assms(2) by (simp add: orElse_def)
qed

theorem degenerate_speed_range_witness:
  "steadyTrack \<noteq> [] \<and> list_all (\<lambda>p. speed p = 200) steadyTrack \<and>
   Math_min (map speed steadyTrack) = Some 200 \<and>
   Math_max (map speed steadyTrack) = Some 200 \<and>
   list_all (\<lambda>p. speedT (speed p) 200 200 = 0) steadyTrack \<and>
   list_all (\<lambda>p. speedColor (speed p) 200 200 = ''rgb(30,120,255)'') steadyTrack"
proof -
  have h1: "steadyTrack \<noteq> []" by (simp add: steadyTrack_def)
  have h2: "\<forall>p \<in> set steadyTrack. speed p = 200"
    by (simp add: steadyTrack_def samplePoint_def)
  have mn: "Math_min (map speed steadyTrack) = Some 200"
    by (simp add: steadyTrack_def samplePoint_def)
  have mx: "Math_max (map speed steadyTrack) = Some 200"
    by (simp add: steadyTrack_def samplePoint_def)
  show ?thesis
    using h1 h2 mn mx degenerate_speed_range [OF h1 h2] by (auto simp add: list_all_iff)
qed

text \<open>
  Claim C10: for a non-empty track and the same view box size and padding, the path
  string of the older \<^verbatim>\<open>buildPathData\<close> equals, character for character, the path string of
  the newer \<^verbatim>\<open>buildPathData\<close> applied to the parameters of \<open>buildNormParams\<close>; and the
  older variant's inline start marker is \<open>normPoint\<close> of the first sample under the
  parameters for \<open>SIZE\<close> and \<open>PADDING\<close>, which is the newer variant's start marker.
\<close>

theorem legacy_equivalence:
  assumes "telemetry \<noteq> []"
  shows "\<exists>ps ps0.
           buildNormParams telemetry viewBoxSize padding = Some ps \<and>
           legacy_buildPathData expo telemetry viewBoxSize padding
             = buildPathData expo telemetry ps \<and>
           buildNormParams telemetry SIZE PADDING = Some ps0 \<and>
           legacy_startMarker telemetry = Some (normPoint (telemetry ! 0) ps0) \<and>
           legacy_startMarker telemetry = startPos telemetry"
proof -
  have nx: "map x_coordinate telemetry \<noteq> []" and ny: "map y_coordinate telemetry \<noteq> []"
    using assms by simp_all
  have path: "legacy_buildPathData expo telemetry viewBoxSize padding
      = buildPathData expo telemetry (the (buildNormParams telemetry viewBoxSize padding))"
    unfolding legacy_buildPathData_def buildPathData_def buildNormParams_def
    by (simp add: Math_min_eq [OF nx] Math_max_eq [OF nx] Math_min_eq [OF ny] Math_max_eq [OF ny]
          Let_def mapIndexed_map normPoint_def)
  have marker: "legacy_startMarker telemetry
      = Some (normPoint (telemetry ! 0) (the (buildNormParams telemetry SIZE PADDING)))"
    unfolding legacy_startMarker_def buildNormParams_def using assms
    by (simp add: Math_min_eq [OF nx] Math_max_eq [OF nx] Math_min_eq [OF ny] Math_max_eq [OF ny]
          Let_def normPoint_def)
  have sp: "startPos telemetry
      = Some (normPoint (telemetry ! 0) (the (buildNormParams telemetry SIZE PADDING)))"
    using assms by (simp add: startPos_def buildNormParams_nonempty)
  show ?thesis
    using path marker sp by (simp add: buildNormParams_nonempty [OF assms])
qed

theorem legacy_equivalence_witness:
  "sampleTrack \<noteq> [] \<and>
   legacy_buildPathData (\<lambda>x. ''?'') sampleTrack SIZE PADDING
     = ''M 40.00 160.00 L 400.00 640.00 L 760.00 160.00'' \<and>
   legacy_startMarker sampleTrack = Some (40, 160) \<and>
   (\<exists>ps ps0.
      buildNormParams sampleTrack SIZE PADDING = Some ps \<and>
      legacy_buildPathData (\<lambda>x. ''?'') sampleTrack SIZE PADDING
        = buildPathData (\<lambda>x. ''?'') sampleTrack ps \<and>
      buildNormParams sampleTrack SIZE PADDING = Some ps0 \<and>
      legacy_startMarker sampleTrack = Some (normPoint (sampleTrack ! 0) ps0) \<and>
      legacy_startMarker sampleTrack = startPos sampleTrack)"
proof -
  have h: "sampleTrack \<noteq> []" by (simp add: sampleTrack_def)
  have d: "showNat 4000 = ''4000''" "showNat 16000 = ''16000''" "showNat 40000 = ''40000''"
    "showNat 64000 = ''64000''" "showNat 76000 = ''76000''"
    by (simp_all add: showNat.simps digitChar_def)
  have f: "toFixed (\<lambda>x. ''?'') 2 40 = ''40.00''" "toFixed (\<lambda>x. ''?'') 2 160 = ''160.00''"
    "toFixed (\<lambda>x. ''?'') 2 400 = ''400.00''" "toFixed (\<lambda>x. ''?'') 2 640 = ''640.00''"
    "toFixed (\<lambda>x. ''?'') 2 760 = ''760.00''"
    by (simp_all add: toFixed_def Let_def d)
  have ps: "buildNormParams sampleTrack SIZE PADDING
      = Some \<lparr>minX = 0, minY = 0, scale = 12, offsetX = 40, offsetY = 160\<rparr>"
    by (rule sampleTrack_params)
  have new: "buildPathData (\<lambda>x. ''?'') sampleTrack
               \<lparr>minX = 0, minY = 0, scale = 12, offsetX = 40, offsetY = 160\<rparr>
             = ''M 40.00 160.00 L 400.00 640.00 L 760.00 160.00''"
    by (simp add: buildPathData_def sampleTrack_def samplePoint_def normPoint_def f)
  have st: "startPos sampleTrack = Some (40, 160)"
    by (simp add: startPos_def ps) (simp add: sampleTrack_def samplePoint_def normPoint_def)
  show ?thesis
    using h new st legacy_equivalence [OF h, of SIZE PADDING "\<lambda>x. ''?''"] by (auto simp add: ps)
qed

end
